theory Spec2Isabelle
  imports Complex_Main "HOL-Library.Sublist" "HOL-Library.Product_Lexorder"
begin

section \<open>Python strings\<close>

text \<open>
  A Python \<open>str\<close> is a sequence of code points. It is modelled as a \<open>string\<close> whose
  characters are the code points below 256 (Latin-1); text with code points beyond that
  range is outside the model. The character classes below are those of Python 3 on this
  range: \<open>str.isspace\<close> and the regex classes \<open>\s\<close>, \<open>\w\<close>, \<open>\d\<close> in Unicode mode.
\<close>

definition ord :: "char \<Rightarrow> nat" where
  "ord c = of_char c"

definition is_space :: "char \<Rightarrow> bool" where
  "is_space c = (let n = ord c in
     (9 \<le> n \<and> n \<le> 13) \<or> (28 \<le> n \<and> n \<le> 32) \<or> n = 133 \<or> n = 160)"

definition is_digit :: "char \<Rightarrow> bool" where
  "is_digit c = (let n = ord c in 48 \<le> n \<and> n \<le> 57)"

definition is_word :: "char \<Rightarrow> bool" where
  "is_word c = (let n = ord c in
     (48 \<le> n \<and> n \<le> 57) \<or> (65 \<le> n \<and> n \<le> 90) \<or> n = 95 \<or> (97 \<le> n \<and> n \<le> 122) \<or>
     n = 170 \<or> n = 178 \<or> n = 179 \<or> n = 181 \<or> n = 185 \<or> n = 186 \<or>
     (188 \<le> n \<and> n \<le> 190) \<or> (192 \<le> n \<and> n \<le> 214) \<or> (216 \<le> n \<and> n \<le> 246) \<or>
     (248 \<le> n \<and> n \<le> 255))"

definition lower_char :: "char \<Rightarrow> char" where
  "lower_char c = (let n = ord c in
     if (65 \<le> n \<and> n \<le> 90) \<or> (192 \<le> n \<and> n \<le> 214) \<or> (216 \<le> n \<and> n \<le> 222)
     then char_of (n + 32) else c)"

definition lower :: "string \<Rightarrow> string" where
  "lower s = map lower_char s"

text \<open>
  \<open>str.upper\<close> leaves the range for two characters (U+00B5 and U+00FF map to U+039C and
  U+0178) and maps U+00DF to two letters; \<open>upper\<close> returns \<open>None\<close> when the result is not
  a Latin-1 string.
\<close>

definition upper_char :: "char \<Rightarrow> string option" where
  "upper_char c = (let n = ord c in
     if (97 \<le> n \<and> n \<le> 122) \<or> (224 \<le> n \<and> n \<le> 246) \<or> (248 \<le> n \<and> n \<le> 254)
     then Some [char_of (n - 32)]
     else if n = 223 then Some ''SS''
     else if n = 181 \<or> n = 255 then None
     else Some [c])"

fun upper :: "string \<Rightarrow> string option" where
  "upper [] = Some []"
| "upper (c # cs) =
     (case upper_char c of
        None \<Rightarrow> None
      | Some u \<Rightarrow> (case upper cs of None \<Rightarrow> None | Some us \<Rightarrow> Some (u @ us)))"

section \<open>Dealer records and resolved groups\<close>

text \<open>
  \<open>StandardizedDealer\<close> (scrapers/base_scraper.py), with the fields the resolver and the
  scorer read. \<open>rating\<close> is a Python float; finite floats are rationals and are compared
  as such (NaN is outside the model).
\<close>

record StandardizedDealer =
  name :: string
  phone :: string
  domain :: string
  state :: string
  zip_code :: string
  rating :: rat
  review_count :: int

text \<open>\<open>MultiOEMMatch\<close> (analysis/multi_oem_detector.py).\<close>

record MultiOEMMatch =
  primary_dealer :: StandardizedDealer
  oem_sources :: "string set"
  dealer_records :: "StandardizedDealer list"
  match_confidence :: int
  match_signals :: "string list"
  multi_oem_score :: int

section \<open>Multi-OEM detector (analysis/multi_oem_detector.py)\<close>

datatype py_error = ValueError | IndexError

definition calculate_multi_oem_score :: "MultiOEMMatch \<Rightarrow> int" where
  "calculate_multi_oem_score self =
     (let oem_count = card (oem_sources self)
      in if oem_count \<ge> 3 then 100
         else if oem_count = 2 then 60
         else if oem_count = 1 then 20
         else 0)"

record MultiOEMDetector =
  dealers_by_oem :: "(string \<times> StandardizedDealer list) list"
  multi_oem_matches :: "MultiOEMMatch list"

definition MultiOEMDetector_init :: MultiOEMDetector where
  "MultiOEMDetector_init = \<lparr>dealers_by_oem = [], multi_oem_matches = []\<rparr>"

text \<open>
  A \<open>dict\<close> keeps its keys in insertion order, and the resolver iterates over its
  dictionaries, so they are association lists. \<open>dict_set\<close> is \<open>d[k] = v\<close>: an existing key
  keeps its position and gets the new value, a new key goes to the end.
\<close>

fun dict_set :: "'k \<Rightarrow> 'v \<Rightarrow> ('k \<times> 'v) list \<Rightarrow> ('k \<times> 'v) list" where
  "dict_set k v [] = [(k, v)]"
| "dict_set k v ((k', v') # rest) =
     (if k' = k then (k, v) # rest else (k', v') # dict_set k v rest)"

definition add_dealers ::
  "StandardizedDealer list \<Rightarrow> string \<Rightarrow> MultiOEMDetector \<Rightarrow> MultiOEMDetector" where
  "add_dealers dealers oem_name self =
     self\<lparr>dealers_by_oem := dict_set oem_name dealers (dealers_by_oem self)\<rparr>"

subsection \<open>Normalisation of the join keys\<close>

definition normalize_phone :: "string \<Rightarrow> string" where
  "normalize_phone ph =
     (if ph = [] then []
      else let digits = filter is_digit ph
           in if take 1 digits = ''1'' \<and> length digits = 11 then drop 1 digits else digits)"

text \<open>\<open>s.replace(old, new)\<close> for a non-empty \<open>old\<close>: leftmost occurrences, not overlapping.\<close>

fun replace_all :: "string \<Rightarrow> string \<Rightarrow> string \<Rightarrow> string" where
  "replace_all old new [] = []"
| "replace_all old new (c # cs) =
     (if old \<noteq> [] \<and> prefix old (c # cs)
      then new @ replace_all old new (drop (length old - 1) cs)
      else c # replace_all old new cs)"

text \<open>\<open>s.split(sep)\<close> for a one-character separator; the empty string gives \<open>['']\<close>.\<close>

fun split_on :: "char \<Rightarrow> string \<Rightarrow> string list" where
  "split_on sep [] = [[]]"
| "split_on sep (c # cs) =
     (if c = sep then [] # split_on sep cs
      else (case split_on sep cs of
              [] \<Rightarrow> [[c]]
            | p # ps \<Rightarrow> (c # p) # ps))"

fun str_join :: "string \<Rightarrow> string list \<Rightarrow> string" where
  "str_join sep [] = []"
| "str_join sep [p] = p"
| "str_join sep (p # ps) = p @ sep @ str_join sep ps"

definition normalize_domain :: "string \<Rightarrow> string" where
  "normalize_domain dom0 =
     (if dom0 = [] then []
      else let d = replace_all ''www.'' [] (lower dom0);
               parts = split_on CHR ''.'' d;
               n = length parts
           in if n \<ge> 3 \<and> parts ! (n - 2) \<in> set [''co'', ''com'', ''org'', ''net'']
              then str_join ''.'' (drop (n - 3) parts)
              else if n \<ge> 2 then str_join ''.'' (drop (n - 2) parts)
              else d)"

subsection \<open>Fuzzy name match\<close>

fun is_w :: "char option \<Rightarrow> bool" where
  "is_w None = False"
| "is_w (Some c) = is_word c"

definition char_at_start :: "string \<Rightarrow> char option" where
  "char_at_start s = (case s of [] \<Rightarrow> None | c # _ \<Rightarrow> Some c)"

text \<open>
  \<open>re.sub(r'\bW\b', '', s)\<close> for a literal non-empty word \<open>W\<close>: the scan goes from left
  to right, \<open>prev\<close> is the character before the current position, a match needs a word
  boundary on both sides, and the scan resumes after a match.
\<close>

fun re_sub_word :: "string \<Rightarrow> char option \<Rightarrow> string \<Rightarrow> string" where
  "re_sub_word w prev [] = []"
| "re_sub_word w prev (c # cs) =
     (if w \<noteq> [] \<and> prefix w (c # cs) \<and> is_w prev \<noteq> is_word c \<and>
         is_word (last w) \<noteq> is_w (char_at_start (drop (length w - 1) cs))
      then re_sub_word w (Some (last w)) (drop (length w - 1) cs)
      else c # re_sub_word w (Some c) cs)"

text \<open>\<open>s.split()\<close>: the maximal runs of characters that are not whitespace.\<close>

fun split_ws_aux :: "string \<Rightarrow> string \<Rightarrow> string list" where
  "split_ws_aux cur [] = (if cur = [] then [] else [cur])"
| "split_ws_aux cur (c # cs) =
     (if is_space c
      then (if cur = [] then split_ws_aux [] cs else cur # split_ws_aux [] cs)
      else split_ws_aux (cur @ [c]) cs)"

definition split_ws :: "string \<Rightarrow> string list" where
  "split_ws s = split_ws_aux [] s"

definition strip :: "string \<Rightarrow> string" where
  "strip s = rev (dropWhile is_space (rev (dropWhile is_space s)))"

definition SUFFIXES :: "string list" where
  "SUFFIXES = [''llc'', ''inc'', ''incorporated'', ''corp'', ''corporation'', ''ltd'',
               ''limited'', ''co'']"

definition normalize_name :: "string \<Rightarrow> string" where
  "normalize_name nm =
     (let n1 = lower nm;
          n2 = filter (\<lambda>c. is_word c \<or> is_space c) n1;
          n3 = fold (\<lambda>suffix n. re_sub_word suffix None n) SUFFIXES n2;
          n4 = str_join '' '' (split_ws n3)
      in strip n4)"

text \<open>\<open>sub in s\<close> on strings.\<close>

fun contains :: "string \<Rightarrow> string \<Rightarrow> bool" where
  "contains sub [] = (sub = [])"
| "contains sub (c # cs) = (prefix sub (c # cs) \<or> contains sub cs)"

text \<open>
  The similarity ratio is a Python float, the quotient of two set sizes; it is modelled
  as the rational quotient, and the threshold as a rational. The source function calls
  itself once with the arguments swapped when the first is the shorter.
\<close>

definition levenshtein_ratio :: "string \<Rightarrow> string \<Rightarrow> rat" where
  "levenshtein_ratio a b =
     (let s1 = (if length a < length b then b else a);
          s2 = (if length a < length b then a else b)
      in if length s2 = 0 then 0
         else let tokens1 = set (split_ws s1);
                  tokens2 = set (split_ws s2)
              in if tokens1 = {} \<or> tokens2 = {} then 0
                 else let intersection = card (tokens1 \<inter> tokens2);
                          union = card (tokens1 \<union> tokens2)
                      in if union > 0 then of_nat intersection / of_nat union else 0)"

definition fuzzy_name_match :: "string \<Rightarrow> string \<Rightarrow> rat \<Rightarrow> bool \<times> rat" where
  "fuzzy_name_match name1 name2 threshold =
     (if name1 = [] \<or> name2 = [] then (False, 0)
      else let norm1 = normalize_name name1;
               norm2 = normalize_name name2
           in if norm1 = norm2 then (True, 1)
              else if contains norm1 norm2 \<or> contains norm2 norm1 then (True, 9 / 10)
              else let ratio = levenshtein_ratio norm1 norm2
                   in (ratio \<ge> threshold, ratio))"

definition DEFAULT_THRESHOLD :: rat where
  \<comment> \<open>the default value of the parameter \<open>threshold\<close>\<close>
  "DEFAULT_THRESHOLD = 85 / 100"

subsection \<open>Indexes\<close>

type_synonym entry = "string \<times> StandardizedDealer"

type_synonym index = "(string \<times> entry list) list"

text \<open>\<open>index[k].append(v)\<close> on a \<open>defaultdict(list)\<close>.\<close>

fun index_append :: "'k \<Rightarrow> 'v \<Rightarrow> ('k \<times> 'v list) list \<Rightarrow> ('k \<times> 'v list) list" where
  "index_append k v [] = [(k, [v])]"
| "index_append k v ((k', vs) # rest) =
     (if k' = k then (k', vs @ [v]) # rest else (k', vs) # index_append k v rest)"

definition index_dealer :: "string \<Rightarrow> StandardizedDealer \<Rightarrow> index \<times> index \<Rightarrow> index \<times> index" where
  "index_dealer oem_name dealer idx =
     (case idx of (phone_index, domain_index) \<Rightarrow>
        let phone_norm = normalize_phone (phone dealer);
            phone_index' = (if phone_norm \<noteq> []
                            then index_append phone_norm (oem_name, dealer) phone_index
                            else phone_index);
            domain_norm = normalize_domain (domain dealer);
            domain_index' = (if domain_norm \<noteq> []
                             then index_append domain_norm (oem_name, dealer) domain_index
                             else domain_index)
        in (phone_index', domain_index'))"

definition build_indexes :: "(string \<times> StandardizedDealer list) list \<Rightarrow> index \<times> index" where
  "build_indexes dbo =
     fold (\<lambda>(oem_name, dealers) idx. fold (index_dealer oem_name) dealers idx) dbo ([], [])"

text \<open>Invariant of both indexes: a key is only created together with its first entry.\<close>

definition buckets_nonempty :: "('k \<times> 'v list) list \<Rightarrow> bool" where
  "buckets_nonempty idx = (\<forall>(k, vs) \<in> set idx. vs \<noteq> [])"

definition group_by_oem :: "entry list \<Rightarrow> (string \<times> StandardizedDealer list) list" where
  "group_by_oem entries = fold (\<lambda>(oem_name, dealer) acc. index_append oem_name dealer acc) entries []"

subsection \<open>Matching\<close>

text \<open>
  \<open>max(xs, key=f)\<close>: the running maximum is replaced only by a strictly greater key, so
  the first of several maximal elements is returned; an empty sequence raises ValueError.
\<close>

fun max_by_key :: "('a \<Rightarrow> 'k::linorder) \<Rightarrow> 'a \<Rightarrow> 'a list \<Rightarrow> 'a" where
  "max_by_key key best [] = best"
| "max_by_key key best (x # xs) = max_by_key key (if key best < key x then x else best) xs"

definition py_max :: "('a \<Rightarrow> 'k::linorder) \<Rightarrow> 'a list \<Rightarrow> py_error + 'a" where
  "py_max key xs = (case xs of [] \<Rightarrow> Inl ValueError | x # rest \<Rightarrow> Inr (max_by_key key x rest))"

definition dealer_key :: "StandardizedDealer \<Rightarrow> rat \<times> int" where
  "dealer_key d = (rating d, review_count d)"

text \<open>
  The body of the loop over the phone index. \<open>Inr None\<close> is \<open>continue\<close>; otherwise the
  new match and the pair added to \<open>processed_combinations\<close>.
\<close>

definition phone_match ::
  "int \<Rightarrow> string \<Rightarrow> entry list \<Rightarrow> py_error + (MultiOEMMatch \<times> (string \<times> string)) option" where
  "phone_match min_oem_count phone_norm entries =
     (if int (length entries) < min_oem_count then Inr None
      else let oem_entries = group_by_oem entries
           in if int (length oem_entries) < min_oem_count then Inr None
              else let all_dealers = map snd entries;
                       oem_srcs = set (map fst oem_entries)
                   in (case py_max dealer_key all_dealers of
                        Inl e \<Rightarrow> Inl e
                      | Inr primary \<Rightarrow>
                          let domain_norm = normalize_domain (domain primary);
                              signals1 = [''phone''];
                              signals2 =
                                (if domain_norm \<noteq> [] \<and>
                                    list_all (\<lambda>d. normalize_domain (domain d) = domain_norm)
                                      (filter (\<lambda>d. domain d \<noteq> []) all_dealers)
                                 then signals1 @ [''domain''] else signals1);
                              name_matches =
                                list_all (\<lambda>d. fst (fuzzy_name_match (name primary) (name d)
                                                      DEFAULT_THRESHOLD)) all_dealers;
                              signals3 = (if name_matches then signals2 @ [''name''] else signals2);
                              confidence = min (int (length signals3) * 30 + 10) 100;
                              m = \<lparr>primary_dealer = primary, oem_sources = oem_srcs,
                                   dealer_records = all_dealers, match_confidence = confidence,
                                   match_signals = signals3, multi_oem_score = 0\<rparr>
                          in Inr (Some (m\<lparr>multi_oem_score := calculate_multi_oem_score m\<rparr>,
                                        (phone_norm, domain_norm)))))"

fun phone_loop ::
  "int \<Rightarrow> index \<Rightarrow> MultiOEMMatch list \<times> (string \<times> string) set \<Rightarrow>
   py_error + (MultiOEMMatch list \<times> (string \<times> string) set)" where
  "phone_loop min_oem_count [] acc = Inr acc"
| "phone_loop min_oem_count ((phone_norm, entries) # rest) (matches, processed) =
     (case phone_match min_oem_count phone_norm entries of
        Inl e \<Rightarrow> Inl e
      | Inr None \<Rightarrow> phone_loop min_oem_count rest (matches, processed)
      | Inr (Some (m, pair)) \<Rightarrow>
          phone_loop min_oem_count rest (matches @ [m], insert pair processed))"

text \<open>The body of the loop over the domain index.\<close>

definition domain_match ::
  "int \<Rightarrow> (string \<times> string) set \<Rightarrow> string \<Rightarrow> entry list \<Rightarrow> py_error + MultiOEMMatch option" where
  "domain_match min_oem_count processed domain_norm entries =
     (if int (length entries) < min_oem_count then Inr None
      else (case entries of
             [] \<Rightarrow> Inl IndexError
           | first # _ \<Rightarrow>
               let phone_norm = normalize_phone (phone (snd first))
               in if (phone_norm, domain_norm) \<in> processed then Inr None
                  else let oem_entries = group_by_oem entries
                       in if int (length oem_entries) < min_oem_count then Inr None
                          else let all_dealers = map snd entries;
                                   oem_srcs = set (map fst oem_entries)
                               in (case py_max dealer_key all_dealers of
                                    Inl e \<Rightarrow> Inl e
                                  | Inr primary \<Rightarrow>
                                      let m = \<lparr>primary_dealer = primary, oem_sources = oem_srcs,
                                               dealer_records = all_dealers, match_confidence = 60,
                                               match_signals = [''domain''], multi_oem_score = 0\<rparr>
                                      in Inr (Some (m\<lparr>multi_oem_score :=
                                                        calculate_multi_oem_score m\<rparr>)))))"

fun domain_loop ::
  "int \<Rightarrow> (string \<times> string) set \<Rightarrow> index \<Rightarrow> MultiOEMMatch list \<Rightarrow>
   py_error + MultiOEMMatch list" where
  "domain_loop min_oem_count processed [] matches = Inr matches"
| "domain_loop min_oem_count processed ((domain_norm, entries) # rest) matches =
     (case domain_match min_oem_count processed domain_norm entries of
        Inl e \<Rightarrow> Inl e
      | Inr None \<Rightarrow> domain_loop min_oem_count processed rest matches
      | Inr (Some m) \<Rightarrow> domain_loop min_oem_count processed rest (matches @ [m]))"

text \<open>
  \<open>matches.sort(key=..., reverse=True)\<close>: a stable sort that keeps the original order of
  elements with equal keys, done by reversing, sorting upwards and reversing again.
\<close>

definition match_key :: "MultiOEMMatch \<Rightarrow> int \<times> int" where
  "match_key m = (multi_oem_score m, match_confidence m)"

definition sort_matches :: "MultiOEMMatch list \<Rightarrow> MultiOEMMatch list" where
  "sort_matches ms = rev (sort_key match_key (rev ms))"

definition find_multi_oem_contractors ::
  "MultiOEMDetector \<Rightarrow> int \<Rightarrow> (py_error + MultiOEMMatch list) \<times> MultiOEMDetector" where
  "find_multi_oem_contractors self min_oem_count =
     (case build_indexes (dealers_by_oem self) of (phone_index, domain_index) \<Rightarrow>
        (case phone_loop min_oem_count phone_index ([], {}) of
           Inl e \<Rightarrow> (Inl e, self)
         | Inr (matches1, processed) \<Rightarrow>
             (case domain_loop min_oem_count processed domain_index matches1 of
                Inl e \<Rightarrow> (Inl e, self)
              | Inr matches2 \<Rightarrow>
                  let matches = sort_matches matches2
                  in (Inr matches, self\<lparr>multi_oem_matches := matches\<rparr>))))"

section \<open>Dates\<close>

text \<open>
  \<open>datetime.date\<close>: a proleptic Gregorian calendar date. \<open>(a - b).days\<close> is the
  difference of the ordinals, computed as the standard library does.
\<close>

record date =
  year :: int
  month :: int
  day :: int

definition mk_date :: "int \<Rightarrow> int \<Rightarrow> int \<Rightarrow> date" where
  "mk_date y m d = \<lparr>year = y, month = m, day = d\<rparr>"

definition is_leap :: "int \<Rightarrow> bool" where
  "is_leap y = (y mod 4 = 0 \<and> (y mod 100 \<noteq> 0 \<or> y mod 400 = 0))"

definition days_in_month :: "int \<Rightarrow> int \<Rightarrow> int" where
  "days_in_month y m =
     (if m = 2 then (if is_leap y then 29 else 28)
      else if m = 4 \<or> m = 6 \<or> m = 9 \<or> m = 11 then 30 else 31)"

definition valid_date :: "date \<Rightarrow> bool" where
  "valid_date d = (1 \<le> year d \<and> year d \<le> 9999 \<and> 1 \<le> month d \<and> month d \<le> 12 \<and>
     1 \<le> day d \<and> day d \<le> days_in_month (year d) (month d))"

definition days_before_year :: "int \<Rightarrow> int" where
  "days_before_year y = (let p = y - 1 in p * 365 + p div 4 - p div 100 + p div 400)"

definition DAYS_BEFORE_MONTH :: "int list" where
  "DAYS_BEFORE_MONTH = [0, 31, 59, 90, 120, 151, 181, 212, 243, 273, 304, 334]"

definition days_before_month :: "int \<Rightarrow> int \<Rightarrow> int" where
  "days_before_month y m =
     DAYS_BEFORE_MONTH ! nat (m - 1) + (if m > 2 \<and> is_leap y then 1 else 0)"

definition toordinal :: "date \<Rightarrow> int" where
  "toordinal d = days_before_year (year d) + days_before_month (year d) (month d) + day d"

definition days_between :: "date \<Rightarrow> date \<Rightarrow> int" where
  \<comment> \<open>\<open>(a - b).days\<close>\<close>
  "days_between a b = toordinal a - toordinal b"

definition date_le :: "date \<Rightarrow> date \<Rightarrow> bool" where
  \<comment> \<open>\<open>a <= b\<close> on dates: the comparison of \<open>(year, month, day)\<close>\<close>
  "date_le a b = ((year a, month a, day a) \<le> (year b, month b, day b))"

section \<open>SREC state filter and ITC urgency (targeting/srec_itc_filter.py)\<close>

datatype SRECPriority = SREC_HIGH | SREC_MEDIUM | SREC_LOW

datatype ITCUrgency = CRITICAL | HIGH | MEDIUM | LOW

text \<open>\<open>SREC_STATES\<close>: the keys of the table with the priority of each entry.\<close>

definition SREC_STATES :: "(string \<times> SRECPriority) list" where
  "SREC_STATES =
    [(''CA'', SREC_HIGH), (''TX'', SREC_HIGH), (''PA'', SREC_HIGH), (''MA'', SREC_HIGH),
     (''NJ'', SREC_HIGH), (''FL'', SREC_HIGH),
     (''OH'', SREC_MEDIUM), (''MD'', SREC_MEDIUM), (''DC'', SREC_MEDIUM), (''DE'', SREC_MEDIUM),
     (''NH'', SREC_MEDIUM), (''RI'', SREC_MEDIUM), (''CT'', SREC_MEDIUM), (''IL'', SREC_MEDIUM)]"

definition ITC_RESIDENTIAL_DEADLINE :: date where
  "ITC_RESIDENTIAL_DEADLINE = mk_date 2025 12 31"

definition ITC_COMMERCIAL_SAFE_HARBOR :: date where
  "ITC_COMMERCIAL_SAFE_HARBOR = mk_date 2026 6 30"

record SRECITCFilter =
  srec_states :: "(string \<times> SRECPriority) list"
  residential_itc_deadline :: date
  commercial_safe_harbor :: date
  today :: date

definition SRECITCFilter_init :: "date \<Rightarrow> SRECITCFilter" where
  \<comment> \<open>\<open>__init__\<close>; the argument is the value of \<open>date.today()\<close>\<close>
  "SRECITCFilter_init now =
     \<lparr>srec_states = SREC_STATES,
      residential_itc_deadline = ITC_RESIDENTIAL_DEADLINE,
      commercial_safe_harbor = ITC_COMMERCIAL_SAFE_HARBOR,
      today = now\<rparr>"

definition is_srec_state :: "SRECITCFilter \<Rightarrow> string \<Rightarrow> bool" where
  \<comment> \<open>\<open>state_code.upper() in self.srec_states\<close>; no key has a code point above 255\<close>
  "is_srec_state self state_code =
     (case upper state_code of
        None \<Rightarrow> False
      | Some u \<Rightarrow> u \<in> set (map fst (srec_states self)))"

definition calculate_itc_urgency ::
  "SRECITCFilter \<Rightarrow> string \<Rightarrow> bool \<Rightarrow> date option \<Rightarrow> ITCUrgency" where
  "calculate_itc_urgency self state_code is_commercial reference_date =
     (let ref_date = (case reference_date of Some d \<Rightarrow> d | None \<Rightarrow> today self);
          is_srec = is_srec_state self state_code;
          days_to_commercial = days_between (commercial_safe_harbor self) ref_date;
          days_to_residential = days_between (residential_itc_deadline self) ref_date
      in if is_commercial \<and> days_to_commercial \<le> 365 \<and> days_to_commercial > 0 then CRITICAL
         else if \<not> is_commercial \<and> days_to_residential \<le> 180 \<and> days_to_residential > 0 then HIGH
         else if is_srec then MEDIUM
         else LOW)"

section \<open>Lead scorer: geographic value (targeting/coperniq_lead_scorer.py)\<close>

definition WEALTHY_ZIPS :: "(string \<times> string list) list" where
  "WEALTHY_ZIPS =
    [(''CA'', [''94027'', ''94301'', ''94304'', ''94022'', ''94024'', ''90210'', ''90212'',
               ''90265'', ''90272'', ''92657'', ''92660'', ''92662'', ''92037'', ''92067'',
               ''94920'', ''94028'', ''94956'', ''93108'', ''92625'']),
     (''TX'', [''77019'', ''77024'', ''77005'', ''77056'', ''75205'', ''75225'', ''75229'',
               ''78746'', ''78733'', ''78730'', ''78734'', ''77007'', ''76107'']),
     (''PA'', [''19035'', ''19003'', ''19087'', ''19085'', ''19301'', ''15215'', ''15238'',
               ''19010'', ''19041'', ''19066'']),
     (''MA'', [''02467'', ''02481'', ''02492'', ''02445'', ''02482'', ''02459'', ''02468'',
               ''01752'', ''02142'', ''02138'', ''02139'']),
     (''NJ'', [''07078'', ''07920'', ''07931'', ''07039'', ''07726'', ''07733'', ''08540'',
               ''07869'', ''07046'', ''07670'', ''07450'']),
     (''FL'', [''33109'', ''33158'', ''33156'', ''33480'', ''33455'', ''34102'', ''34103'',
               ''33606'', ''33629'', ''33139'', ''33004''])]"

record CoperniqLeadScorer =
  wealthy_zips :: "(string \<times> string list) list"

definition CoperniqLeadScorer_init :: CoperniqLeadScorer where
  "CoperniqLeadScorer_init = \<lparr>wealthy_zips = WEALTHY_ZIPS\<rparr>"

definition score_geographic_value :: "CoperniqLeadScorer \<Rightarrow> MultiOEMMatch \<Rightarrow> int \<times> string" where
  \<comment> \<open>the loop over the wealthy ZIPs at the end of the source function has an empty body\<close>
  "score_geographic_value self contractor =
     (let st = state (primary_dealer contractor);
          zc = zip_code (primary_dealer contractor)
      in case map_of (wealthy_zips self) st of
           None \<Rightarrow> (0, ''State '' @ st @ '' not in wealthy ZIP database'')
         | Some wealthy_zips_for_state \<Rightarrow>
             if zc \<in> set (take 10 wealthy_zips_for_state)
             then (10, ''ZIP '' @ zc @ '' in top 10 wealthy ZIPs for '' @ st)
             else if zc \<in> set wealthy_zips_for_state
             then (7, ''ZIP '' @ zc @ '' in top 30 wealthy ZIPs for '' @ st)
             else (3, ''ZIP '' @ zc @ '' in '' @ st @ '' (standard territory)''))"


section \<open>Scenario inputs\<close>

text \<open>
  The records of the three-OEM scenario: one contractor listed by three OEMs with three
  spellings of its phone number and of its name. They carry no domain.
\<close>

definition abc_generac :: StandardizedDealer where
  "abc_generac = \<lparr>name = ''ABC Electric'', phone = ''(555) 123-4567'', domain = [],
     state = ''CA'', zip_code = ''94027'', rating = 0, review_count = 0\<rparr>"

definition abc_tesla :: StandardizedDealer where
  "abc_tesla = \<lparr>name = ''ABC Electric LLC'', phone = ''555-123-4567'', domain = [],
     state = ''CA'', zip_code = ''94027'', rating = 0, review_count = 0\<rparr>"

definition abc_enphase :: StandardizedDealer where
  "abc_enphase = \<lparr>name = ''Abc Electric'', phone = ''5551234567'', domain = [],
     state = ''CA'', zip_code = ''94027'', rating = 0, review_count = 0\<rparr>"

definition three_oem_detector :: MultiOEMDetector where
  "three_oem_detector =
     add_dealers [abc_enphase] ''Enphase''
       (add_dealers [abc_tesla] ''Tesla''
          (add_dealers [abc_generac] ''Generac'' MultiOEMDetector_init))"

definition three_oem_group :: MultiOEMMatch where
  "three_oem_group =
     \<lparr>primary_dealer = abc_generac, oem_sources = {''Generac'', ''Tesla'', ''Enphase''},
      dealer_records = [abc_generac, abc_tesla, abc_enphase], match_confidence = 70,
      match_signals = [''phone'', ''name''], multi_oem_score = 100\<rparr>"

section \<open>Properties of the ITC urgency\<close>

lemma days_before_year_lower: "2027 \<le> y \<Longrightarrow> 739796 \<le> days_before_year y"
proof -
  assume y: "2027 \<le> y"
  define p where "p = y - 1"
  have a: "p - 3 \<le> 4 * (p div 4)" by presburger
  have b: "100 * (p div 100) \<le> p" by presburger
  have c: "0 \<le> p div 400" using y by (simp add: p_def)
  have "2026 \<le> p" using y by (simp add: p_def)
  then have "739796 \<le> p * 365 + p div 4 - p div 100 + p div 400" using a b c by linarith
  then show ?thesis unfolding days_before_year_def Let_def p_def .
qed

lemma month_cases:
  "1 \<le> (m::int) \<Longrightarrow> m \<le> 12 \<Longrightarrow>
   m = 1 \<or> m = 2 \<or> m = 3 \<or> m = 4 \<or> m = 5 \<or> m = 6 \<or> m = 7 \<or> m = 8 \<or> m = 9 \<or> m = 10 \<or> m = 11 \<or> m = 12"
  by arith

lemma days_before_month_nonneg: "1 \<le> m \<Longrightarrow> m \<le> 12 \<Longrightarrow> 0 \<le> days_before_month y m"
  using month_cases[of m] by (auto simp: days_before_month_def DAYS_BEFORE_MONTH_def)

lemma days_before_month_after_june: "7 \<le> m \<Longrightarrow> m \<le> 12 \<Longrightarrow> 181 \<le> days_before_month y m"
  using month_cases[of m] by (auto simp: days_before_month_def DAYS_BEFORE_MONTH_def)

lemma toordinal_commercial: "toordinal ITC_COMMERCIAL_SAFE_HARBOR = 739797"
  by (simp add: toordinal_def ITC_COMMERCIAL_SAFE_HARBOR_def mk_date_def days_before_year_def
      days_before_month_def DAYS_BEFORE_MONTH_def is_leap_def)

lemma toordinal_residential: "toordinal ITC_RESIDENTIAL_DEADLINE = 739616"
  by (simp add: toordinal_def ITC_RESIDENTIAL_DEADLINE_def mk_date_def days_before_year_def
      days_before_month_def DAYS_BEFORE_MONTH_def is_leap_def)

text \<open>On valid dates the tuple order agrees with the ordinal from the deadline onwards.\<close>

lemma toordinal_on_or_after_commercial:
  assumes v: "valid_date d" and le: "date_le ITC_COMMERCIAL_SAFE_HARBOR d"
  shows "739797 \<le> toordinal d"
proof -
  from v have m: "1 \<le> month d" "month d \<le> 12" and dd: "1 \<le> day d"
    by (simp_all add: valid_date_def)
  from le have "2026 < year d \<or> (year d = 2026 \<and> (6 < month d \<or> (month d = 6 \<and> 30 \<le> day d)))"
    by (auto simp: date_le_def ITC_COMMERCIAL_SAFE_HARBOR_def mk_date_def less_eq_prod_def)
  then consider (later_year) "2027 \<le> year d" | (later_month) "year d = 2026" "7 \<le> month d"
    | (same_month) "year d = 2026" "month d = 6" "30 \<le> day d"
    by auto
  then show ?thesis
  proof cases
    case later_year
    then show ?thesis
      using days_before_year_lower[of "year d"] days_before_month_nonneg[OF m, of "year d"] dd
      by (simp add: toordinal_def)
  next
    case later_month
    then show ?thesis
      using days_before_month_after_june[of "month d" 2026] m dd
      by (simp add: toordinal_def days_before_year_def)
  next
    case same_month
    then show ?thesis
      by (simp add: toordinal_def days_before_year_def days_before_month_def
          DAYS_BEFORE_MONTH_def)
  qed
qed

lemma init_fields:
  "commercial_safe_harbor (SRECITCFilter_init now) = ITC_COMMERCIAL_SAFE_HARBOR"
  "residential_itc_deadline (SRECITCFilter_init now) = ITC_RESIDENTIAL_DEADLINE"
  "today (SRECITCFilter_init now) = now"
  "srec_states (SRECITCFilter_init now) = SREC_STATES"
  by (simp_all add: SRECITCFilter_init_def)

lemma is_srec_ca: "is_srec_state (SRECITCFilter_init (mk_date 2025 1 1)) ''ca''"
  by code_simp

lemma not_is_srec_ny: "\<not> is_srec_state (SRECITCFilter_init (mk_date 2025 1 1)) ''NY''"
  by code_simp

lemma ordinal_2025_09_03: "toordinal (mk_date 2025 9 3) = 739497"
  by (simp add: toordinal_def mk_date_def days_before_year_def
      days_before_month_def DAYS_BEFORE_MONTH_def is_leap_def)

lemma ordinal_2025_03_06: "toordinal (mk_date 2025 3 6) = 739316"
  by (simp add: toordinal_def mk_date_def days_before_year_def
      days_before_month_def DAYS_BEFORE_MONTH_def is_leap_def)

text \<open>
  C5 (counterexample). On 2025-03-06, exactly 300 days before the residential deadline,
  a non-commercial contractor in California is not rated HIGH: the residential branch
  asks for at most 180 days, so the SREC branch decides and the urgency is MEDIUM.
\<close>

theorem residential_300_days_not_high:
  "days_between ITC_RESIDENTIAL_DEADLINE (mk_date 2025 3 6) = 300 \<and>
   calculate_itc_urgency (SRECITCFilter_init (mk_date 2025 1 1)) ''ca'' False
     (Some (mk_date 2025 3 6)) = MEDIUM"
  using is_srec_ca
  by (simp add: calculate_itc_urgency_def init_fields days_between_def
      toordinal_commercial toordinal_residential ordinal_2025_03_06)

text \<open>
  C5 (amended). A commercial contractor evaluated exactly 300 days before the commercial
  safe-harbor deadline is CRITICAL, in every state. A non-commercial contractor evaluated
  exactly 300 days before the residential deadline is MEDIUM in a state of the SREC table
  and LOW elsewhere. The reference date is the argument when one is given and today's
  date otherwise.
\<close>

theorem itc_urgency_300_days:
  assumes "ref = (case reference_date of Some d \<Rightarrow> d | None \<Rightarrow> now)"
  shows "(days_between ITC_COMMERCIAL_SAFE_HARBOR ref = 300 \<longrightarrow>
           calculate_itc_urgency (SRECITCFilter_init now) state_code True reference_date = CRITICAL) \<and>
         (days_between ITC_RESIDENTIAL_DEADLINE ref = 300 \<longrightarrow>
           calculate_itc_urgency (SRECITCFilter_init now) state_code False reference_date =
             (if is_srec_state (SRECITCFilter_init now) state_code then MEDIUM else LOW))"
  using assms
  by (cases reference_date)
     (simp_all add: calculate_itc_urgency_def init_fields days_between_def Let_def)

theorem itc_urgency_300_days_witness:
  "days_between ITC_COMMERCIAL_SAFE_HARBOR (mk_date 2025 9 3) = 300 \<and>
   calculate_itc_urgency (SRECITCFilter_init (mk_date 2025 1 1)) ''NY'' True
     (Some (mk_date 2025 9 3)) = CRITICAL \<and>
   days_between ITC_RESIDENTIAL_DEADLINE (mk_date 2025 3 6) = 300 \<and>
   calculate_itc_urgency (SRECITCFilter_init (mk_date 2025 1 1)) ''NY'' False
     (Some (mk_date 2025 3 6)) = LOW"
proof -
  have c: "days_between ITC_COMMERCIAL_SAFE_HARBOR (mk_date 2025 9 3) = 300"
    by (simp add: days_between_def toordinal_commercial ordinal_2025_09_03)
  have r: "days_between ITC_RESIDENTIAL_DEADLINE (mk_date 2025 3 6) = 300"
    by (simp add: days_between_def toordinal_residential ordinal_2025_03_06)
  show ?thesis
    using c r not_is_srec_ny
      itc_urgency_300_days[where ref = "mk_date 2025 9 3" and reference_date = "Some (mk_date 2025 9 3)"
        and now = "mk_date 2025 1 1" and state_code = "''NY''"]
      itc_urgency_300_days[where ref = "mk_date 2025 3 6" and reference_date = "Some (mk_date 2025 3 6)"
        and now = "mk_date 2025 1 1" and state_code = "''NY''"]
    by simp
qed

text \<open>
  C10. From the commercial safe-harbor deadline (2026-06-30) onwards, neither deadline
  branch can fire: the urgency is MEDIUM for a state of the SREC table and LOW otherwise,
  for every state code and both values of the commercial flag, whether the date is passed
  as the reference date or is today's date.
\<close>

theorem itc_urgency_after_commercial_deadline:
  assumes "valid_date ref" and "date_le ITC_COMMERCIAL_SAFE_HARBOR ref"
  shows "calculate_itc_urgency (SRECITCFilter_init now) state_code is_commercial (Some ref) =
           (if is_srec_state (SRECITCFilter_init now) state_code then MEDIUM else LOW) \<and>
         calculate_itc_urgency (SRECITCFilter_init ref) state_code is_commercial None =
           (if is_srec_state (SRECITCFilter_init ref) state_code then MEDIUM else LOW)"
proof -
  have "739797 \<le> toordinal ref"
    using assms by (rule toordinal_on_or_after_commercial)
  then show ?thesis
    by (simp add: calculate_itc_urgency_def init_fields days_between_def
        toordinal_commercial toordinal_residential)
qed

theorem itc_urgency_after_commercial_deadline_witness:
  "valid_date (mk_date 2026 6 30) \<and> date_le ITC_COMMERCIAL_SAFE_HARBOR (mk_date 2026 6 30) \<and>
   calculate_itc_urgency (SRECITCFilter_init (mk_date 2025 1 1)) ''ca'' True
     (Some (mk_date 2026 6 30)) = MEDIUM \<and>
   calculate_itc_urgency (SRECITCFilter_init (mk_date 2025 1 1)) ''NY'' False
     (Some (mk_date 2026 6 30)) = LOW"
proof -
  have v: "valid_date (mk_date 2026 6 30)"
    by (simp add: valid_date_def mk_date_def days_in_month_def)
  have le: "date_le ITC_COMMERCIAL_SAFE_HARBOR (mk_date 2026 6 30)"
    by (simp add: date_le_def ITC_COMMERCIAL_SAFE_HARBOR_def mk_date_def)
  show ?thesis
    using v le is_srec_ca not_is_srec_ny
      itc_urgency_after_commercial_deadline[OF v le, of "mk_date 2025 1 1" "''ca''" True]
      itc_urgency_after_commercial_deadline[OF v le, of "mk_date 2025 1 1" "''NY''" False]
    by simp
qed

section \<open>Properties of the resolver\<close>

lemma dict_set_twice: "dict_set k v2 (dict_set k v1 d) = dict_set k v2 d"
  by (induction d) auto

lemma map_of_dict_set: "map_of (dict_set k v d) k = Some v"
  by (induction d) auto

lemma index_append_nonempty:
  "\<forall>(k, vs) \<in> set idx. vs \<noteq> [] \<Longrightarrow> \<forall>(k, vs) \<in> set (index_append a v idx). vs \<noteq> []"
  by (induction idx) (auto split: if_splits)

lemma index_append_keys:
  "map fst (index_append a v idx) =
     (if a \<in> set (map fst idx) then map fst idx else map fst idx @ [a])"
  by (induction idx) (force split: if_splits)+

lemma index_append_distinct:
  "distinct (map fst idx) \<Longrightarrow> distinct (map fst (index_append a v idx))"
  by (auto simp: index_append_keys)

lemma index_dealer_nonempty:
  assumes "buckets_nonempty (fst idx)" "buckets_nonempty (snd idx)"
  shows "buckets_nonempty (fst (index_dealer oem d idx)) \<and> buckets_nonempty (snd (index_dealer oem d idx))"
  using assms index_append_nonempty
  unfolding buckets_nonempty_def index_dealer_def Let_def
  by (cases idx) (simp add: index_append_nonempty)

lemma fold_index_dealer_nonempty:
  "buckets_nonempty (fst idx) \<Longrightarrow> buckets_nonempty (snd idx) \<Longrightarrow>
   buckets_nonempty (fst (fold (index_dealer oem) ds idx)) \<and>
   buckets_nonempty (snd (fold (index_dealer oem) ds idx))"
  by (induction ds arbitrary: idx) (simp_all add: index_dealer_nonempty)

lemma build_indexes_nonempty_aux:
  "buckets_nonempty (fst idx) \<Longrightarrow> buckets_nonempty (snd idx) \<Longrightarrow>
   buckets_nonempty (fst (fold (\<lambda>(oem_name, dealers) idx. fold (index_dealer oem_name) dealers idx) dbo idx)) \<and>
   buckets_nonempty (snd (fold (\<lambda>(oem_name, dealers) idx. fold (index_dealer oem_name) dealers idx) dbo idx))"
proof (induction dbo arbitrary: idx)
  case Nil
  then show ?case by simp
next
  case (Cons a dbo)
  obtain oem ds where a: "a = (oem, ds)" by (cases a)
  show ?case
    using Cons.IH[of "fold (index_dealer oem) ds idx"]
      fold_index_dealer_nonempty[OF Cons.prems, of oem ds]
    by (simp add: a)
qed

lemma build_indexes_nonempty:
  "buckets_nonempty (fst (build_indexes dbo))" "buckets_nonempty (snd (build_indexes dbo))"
  using build_indexes_nonempty_aux[of "([], [])" dbo]
  by (simp_all add: build_indexes_def buckets_nonempty_def)

lemma py_max_nonempty: "xs \<noteq> [] \<Longrightarrow> \<exists>p. py_max key xs = Inr p"
  by (cases xs) (simp_all add: py_max_def)

lemma max_by_key_mem: "max_by_key key b xs \<in> insert b (set xs)"
  by (induction xs arbitrary: b) (auto split: if_splits)

lemma py_max_mem: "py_max key xs = Inr p \<Longrightarrow> p \<in> set xs"
  using max_by_key_mem[of key]
  by (cases xs) (auto simp: py_max_def)

lemma phone_match_total:
  "es \<noteq> [] \<Longrightarrow> \<exists>r. phone_match n k es = Inr r"
  using py_max_nonempty[of "map snd es" dealer_key]
  by (auto simp: phone_match_def Let_def)

lemma domain_match_total:
  "es \<noteq> [] \<Longrightarrow> \<exists>r. domain_match n pr k es = Inr r"
  using py_max_nonempty[of "map snd es" dealer_key]
  by (cases es) (auto simp: domain_match_def Let_def)

lemma phone_loop_total:
  "buckets_nonempty idx \<Longrightarrow> \<exists>r. phone_loop n idx acc = Inr r"
proof (induction idx arbitrary: acc)
  case Nil
  then show ?case by simp
next
  case (Cons b idx)
  obtain k es where b: "b = (k, es)" by (cases b)
  obtain ms pr where acc: "acc = (ms, pr)" by (cases acc)
  from Cons.prems have es: "es \<noteq> []" and rest: "buckets_nonempty idx"
    by (auto simp: buckets_nonempty_def b)
  from phone_match_total[OF es] obtain r where r: "phone_match n k es = Inr r" by blast
  show ?case using Cons.IH[OF rest] r
    by (cases r) (auto simp: b acc)
qed

lemma domain_loop_total:
  "buckets_nonempty idx \<Longrightarrow> \<exists>r. domain_loop n pr idx ms = Inr r"
proof (induction idx arbitrary: ms)
  case Nil
  then show ?case by simp
next
  case (Cons b idx)
  obtain k es where b: "b = (k, es)" by (cases b)
  from Cons.prems have es: "es \<noteq> []" and rest: "buckets_nonempty idx"
    by (auto simp: buckets_nonempty_def b)
  from domain_match_total[OF es] obtain r where r: "domain_match n pr k es = Inr r" by blast
  show ?case using Cons.IH[OF rest] r
    by (cases r) (auto simp: b)
qed

lemma find_returns:
  "\<exists>ms. find_multi_oem_contractors self n = (Inr ms, self\<lparr>multi_oem_matches := ms\<rparr>)"
proof -
  obtain pi di where idx: "build_indexes (dealers_by_oem self) = (pi, di)"
    by (cases "build_indexes (dealers_by_oem self)")
  have ne: "buckets_nonempty pi" "buckets_nonempty di"
    using build_indexes_nonempty[of "dealers_by_oem self"] by (simp_all add: idx)
  obtain ms1 pr where p: "phone_loop n pi ([], {}) = Inr (ms1, pr)"
    using phone_loop_total[OF ne(1), of n "([], {})"] by auto
  obtain ms2 where d: "domain_loop n pr di ms1 = Inr ms2"
    using domain_loop_total[OF ne(2), of n pr ms1] by auto
  show ?thesis
    by (simp add: find_multi_oem_contractors_def idx p d Let_def)
qed


lemma find_fst_cong:
  "dealers_by_oem a = dealers_by_oem b \<Longrightarrow>
   fst (find_multi_oem_contractors a n) = fst (find_multi_oem_contractors b n)"
  by (simp add: find_multi_oem_contractors_def Let_def split: prod.splits sum.splits)

lemma set_sort_matches: "set (sort_matches ms) = set ms"
  by (simp add: sort_matches_def)

lemma phone_loop_results:
  assumes "phone_loop n idx (ms, pr) = Inr (ms', pr')" and "m \<in> set ms'"
  shows "m \<in> set ms \<or>
         (\<exists>k es pair. (k, es) \<in> set idx \<and> phone_match n k es = Inr (Some (m, pair)))"
  using assms
proof (induction idx arbitrary: ms pr)
  case Nil
  then show ?case by simp
next
  case (Cons b idx)
  obtain k es where b: "b = (k, es)" by (cases b)
  show ?case
  proof (cases "phone_match n k es")
    case (Inl e)
    with Cons.prems show ?thesis by (simp add: b)
  next
    case (Inr r)
    show ?thesis
    proof (cases r)
      case None
      with Inr Cons.prems have "phone_loop n idx (ms, pr) = Inr (ms', pr')"
        by (simp add: b)
      from Cons.IH[OF this Cons.prems(2)] show ?thesis by (auto simp: b)
    next
      case (Some mp)
      obtain m0 pair where mp: "mp = (m0, pair)" by (cases mp)
      from Some Inr Cons.prems mp
      have "phone_loop n idx (ms @ [m0], insert pair pr) = Inr (ms', pr')"
        by (simp add: b)
      from Cons.IH[OF this Cons.prems(2)]
      consider "m \<in> set ms" | "m = m0"
        | "\<exists>k es pair. (k, es) \<in> set idx \<and> phone_match n k es = Inr (Some (m, pair))"
        by auto
      then show ?thesis
      proof cases
        case 1
        then show ?thesis by simp
      next
        case 2
        then have "(k, es) \<in> set (b # idx) \<and> phone_match n k es = Inr (Some (m, pair))"
          using Inr Some mp by (simp add: b)
        then show ?thesis by blast
      next
        case 3
        then show ?thesis by auto
      qed
    qed
  qed
qed

lemma domain_loop_results:
  assumes "domain_loop n pr idx ms = Inr ms'" and "m \<in> set ms'"
  shows "m \<in> set ms \<or>
         (\<exists>k es. (k, es) \<in> set idx \<and> domain_match n pr k es = Inr (Some m))"
  using assms
proof (induction idx arbitrary: ms)
  case Nil
  then show ?case by simp
next
  case (Cons b idx)
  obtain k es where b: "b = (k, es)" by (cases b)
  show ?case
  proof (cases "domain_match n pr k es")
    case (Inl e)
    with Cons.prems show ?thesis by (simp add: b)
  next
    case (Inr r)
    show ?thesis
    proof (cases r)
      case None
      with Inr Cons.prems have "domain_loop n pr idx ms = Inr ms'"
        by (simp add: b)
      from Cons.IH[OF this Cons.prems(2)] show ?thesis by (auto simp: b)
    next
      case (Some m0)
      with Inr Cons.prems have "domain_loop n pr idx (ms @ [m0]) = Inr ms'"
        by (simp add: b)
      from Cons.IH[OF this Cons.prems(2)]
      consider "m \<in> set ms" | "m = m0"
        | "\<exists>k es. (k, es) \<in> set idx \<and> domain_match n pr k es = Inr (Some m)"
        by auto
      then show ?thesis
      proof cases
        case 1
        then show ?thesis by simp
      next
        case 2
        then have "(k, es) \<in> set (b # idx) \<and> domain_match n pr k es = Inr (Some m)"
          using Inr Some by (simp add: b)
        then show ?thesis by blast
      next
        case 3
        then show ?thesis by auto
      qed
    qed
  qed
qed

text \<open>Every returned group comes from one bucket of the phone index or of the domain index.\<close>

lemma find_results:
  assumes "fst (find_multi_oem_contractors self n) = Inr ms" and "m \<in> set ms"
  shows "(\<exists>k es pair. phone_match n k es = Inr (Some (m, pair))) \<or>
         (\<exists>k es pr. domain_match n pr k es = Inr (Some m))"
proof -
  obtain pi di where idx: "build_indexes (dealers_by_oem self) = (pi, di)"
    by (cases "build_indexes (dealers_by_oem self)")
  from assms(1) obtain ms1 pr ms2 where
    p: "phone_loop n pi ([], {}) = Inr (ms1, pr)" and
    d: "domain_loop n pr di ms1 = Inr ms2" and
    ms: "ms = sort_matches ms2"
    by (auto simp: find_multi_oem_contractors_def idx Let_def split: sum.splits prod.splits)
  from assms(2) ms have "m \<in> set ms2" by (simp add: set_sort_matches)
  from domain_loop_results[OF d this] phone_loop_results[OF p, of m]
  show ?thesis by auto
qed

lemma fold_index_append_keys:
  "set (map fst (fold (\<lambda>(oem_name, dealer) acc. index_append oem_name dealer acc) es acc)) =
     set (map fst acc) \<union> fst ` set es \<and>
   (distinct (map fst acc) \<longrightarrow>
     distinct (map fst (fold (\<lambda>(oem_name, dealer) acc. index_append oem_name dealer acc) es acc)))"
proof (induction es arbitrary: acc)
  case Nil
  then show ?case by simp
next
  case (Cons e es)
  obtain oem d where e: "e = (oem, d)" by (cases e)
  show ?case
    using Cons.IH[of "index_append oem d acc"] index_append_distinct[of acc oem d]
    by (auto simp: e index_append_keys)
qed

lemma group_by_oem_keys:
  "set (map fst (group_by_oem es)) = fst ` set es" "distinct (map fst (group_by_oem es))"
  using fold_index_append_keys[of es "[]"] by (simp_all add: group_by_oem_def)

lemma card_group_by_oem: "card (fst ` set es) = length (group_by_oem es)"
  using group_by_oem_keys[of es] distinct_card[of "map fst (group_by_oem es)"] by simp

lemma phone_match_SomeD:
  assumes "phone_match n k es = Inr (Some (m, pair))"
  shows "\<exists>primary. py_max dealer_key (map snd es) = Inr primary \<and>
           n \<le> int (length (group_by_oem es)) \<and>
           primary_dealer m = primary \<and>
           oem_sources m = set (map fst (group_by_oem es)) \<and>
           dealer_records m = map snd es \<and>
           multi_oem_score m = calculate_multi_oem_score m \<and>
           match_signals m =
             [''phone''] @
             (if normalize_domain (domain primary) \<noteq> [] \<and>
                 list_all (\<lambda>d. normalize_domain (domain d) = normalize_domain (domain primary))
                   (filter (\<lambda>d. domain d \<noteq> []) (map snd es))
              then [''domain''] else []) @
             (if list_all (\<lambda>d. fst (fuzzy_name_match (name primary) (name d) DEFAULT_THRESHOLD))
                   (map snd es)
              then [''name''] else []) \<and>
           match_confidence m = min (int (length (match_signals m)) * 30 + 10) 100 \<and>
           pair = (k, normalize_domain (domain primary))"
proof -
  from assms have a: "\<not> int (length es) < n" "\<not> int (length (group_by_oem es)) < n"
    by (auto simp: phone_match_def Let_def split: if_splits)
  obtain primary where p: "py_max dealer_key (map snd es) = Inr primary"
    using assms a by (cases "py_max dealer_key (map snd es)") (auto simp: phone_match_def Let_def)
  from assms a p have
    "primary_dealer m = primary" "oem_sources m = set (map fst (group_by_oem es))"
    "dealer_records m = map snd es" "pair = (k, normalize_domain (domain primary))"
    by (clarsimp simp: phone_match_def Let_def)+
  moreover from assms a p have "multi_oem_score m = calculate_multi_oem_score m"
    by (clarsimp simp: phone_match_def Let_def calculate_multi_oem_score_def)
  moreover from assms a p have
    "match_signals m =
       [''phone''] @
       (if normalize_domain (domain primary) \<noteq> [] \<and>
           list_all (\<lambda>d. normalize_domain (domain d) = normalize_domain (domain primary))
             (filter (\<lambda>d. domain d \<noteq> []) (map snd es))
        then [''domain''] else []) @
       (if list_all (\<lambda>d. fst (fuzzy_name_match (name primary) (name d) DEFAULT_THRESHOLD))
             (map snd es)
        then [''name''] else [])"
    by (clarsimp simp: phone_match_def Let_def)
  moreover from assms a p have
    "match_confidence m = min (int (length (match_signals m)) * 30 + 10) 100"
    by (clarsimp simp: phone_match_def Let_def)
  ultimately show ?thesis using a p by simp
qed

lemma domain_match_SomeD:
  assumes "domain_match n pr k es = Inr (Some m)"
  shows "\<exists>primary. py_max dealer_key (map snd es) = Inr primary \<and>
           n \<le> int (length (group_by_oem es)) \<and>
           primary_dealer m = primary \<and>
           oem_sources m = set (map fst (group_by_oem es)) \<and>
           dealer_records m = map snd es \<and>
           multi_oem_score m = calculate_multi_oem_score m \<and>
           match_signals m = [''domain''] \<and>
           match_confidence m = 60"
proof -
  from assms obtain e rest where es: "es = e # rest"
    by (cases es) (auto simp: domain_match_def Let_def split: if_splits)
  from assms have a: "\<not> int (length es) < n" "\<not> int (length (group_by_oem es)) < n"
    "(normalize_phone (phone (snd e)), k) \<notin> pr"
    by (auto simp: es domain_match_def Let_def split: if_splits)
  obtain primary where p: "py_max dealer_key (map snd es) = Inr primary"
    using assms a by (cases "py_max dealer_key (map snd es)") (auto simp: es domain_match_def Let_def)
  from assms a p have
    "primary_dealer m = primary" "oem_sources m = set (map fst (group_by_oem es))"
    "dealer_records m = map snd es" "match_signals m = [''domain'']" "match_confidence m = 60"
    by (clarsimp simp: es domain_match_def Let_def)+
  moreover from assms a p have "multi_oem_score m = calculate_multi_oem_score m"
    by (clarsimp simp: es domain_match_def Let_def calculate_multi_oem_score_def)
  ultimately show ?thesis using a p by simp
qed

lemma py_max_Inr_nonempty: "py_max key xs = Inr p \<Longrightarrow> xs \<noteq> []"
  by (cases xs) (simp_all add: py_max_def)

lemma score_of_card:
  assumes "finite S" "S \<noteq> {}" "oem_sources m = S"
  shows "calculate_multi_oem_score m =
           (if card S = 1 then 20 else if card S = 2 then 60 else 100) \<and> 1 \<le> card S"
proof -
  from assms have "card S \<noteq> 0" by simp
  then show ?thesis using assms(3)
    by (auto simp: calculate_multi_oem_score_def Let_def)
qed

text \<open>
  C2. Every group returned by \<open>find_multi_oem_contractors\<close> has at least
  \<open>min_oem_count\<close> distinct OEM names (and at least one), and its multi-OEM score is the
  step function of that number: 20 for one OEM, 60 for two, 100 for three or more.
\<close>

theorem resolved_group_oem_count_and_score:
  assumes "fst (find_multi_oem_contractors self min_oem_count) = Inr ms" and "m \<in> set ms"
  shows "min_oem_count \<le> int (card (oem_sources m)) \<and> 1 \<le> card (oem_sources m) \<and>
         multi_oem_score m =
           (if card (oem_sources m) = 1 then 20
            else if card (oem_sources m) = 2 then 60 else 100)"
proof -
  from find_results[OF assms] obtain es primary where
    es: "oem_sources m = set (map fst (group_by_oem es))"
        "py_max dealer_key (map snd es) = Inr primary"
        "min_oem_count \<le> int (length (group_by_oem es))"
        "multi_oem_score m = calculate_multi_oem_score m"
    using phone_match_SomeD domain_match_SomeD by metis
  from py_max_Inr_nonempty[OF es(2)] have ne: "es \<noteq> []" by simp
  have S: "oem_sources m = fst ` set es" using es(1) group_by_oem_keys(1)[of es] by simp
  have c: "card (oem_sources m) = length (group_by_oem es)"
    using card_group_by_oem[of es] S by simp
  have "finite (fst ` set es)" "fst ` set es \<noteq> {}" using ne by simp_all
  from score_of_card[OF this S] es(3,4) c S show ?thesis by simp
qed

text \<open>
  C3. For every returned group that was matched by phone: the signals are \<open>phone\<close>, then
  \<open>domain\<close> exactly when the primary record has a non-empty normalised domain and every
  record of the group that has a domain normalises to it, then \<open>name\<close> exactly when every
  record's name fuzzy-matches the primary's name; the confidence is 30 times the number of
  signals plus 10, capped at 100, that is 40, 70 or 100 for one, two or three signals.
\<close>

theorem phone_group_signals_and_confidence:
  assumes "fst (find_multi_oem_contractors self min_oem_count) = Inr ms" and "m \<in> set ms"
    and "''phone'' \<in> set (match_signals m)"
  shows "match_signals m =
           [''phone''] @
           (if normalize_domain (domain (primary_dealer m)) \<noteq> [] \<and>
               (\<forall>d \<in> set (dealer_records m). domain d \<noteq> [] \<longrightarrow>
                  normalize_domain (domain d) = normalize_domain (domain (primary_dealer m)))
            then [''domain''] else []) @
           (if \<forall>d \<in> set (dealer_records m).
                 fst (fuzzy_name_match (name (primary_dealer m)) (name d) DEFAULT_THRESHOLD)
            then [''name''] else []) \<and>
         match_confidence m = min (30 * int (length (match_signals m)) + 10) 100 \<and>
         match_confidence m =
           (if length (match_signals m) = 1 then 40
            else if length (match_signals m) = 2 then 70 else 100)"
proof -
  from find_results[OF assms(1,2)] consider
    (phone) k es pair where "phone_match min_oem_count k es = Inr (Some (m, pair))"
    | (dom) k es pr where "domain_match min_oem_count pr k es = Inr (Some m)"
    by blast
  then show ?thesis
  proof cases
    case phone
    from phone_match_SomeD[OF phone] obtain primary where
      p: "primary_dealer m = primary" "dealer_records m = map snd es" and
      sig: "match_signals m =
         [''phone''] @
         (if normalize_domain (domain primary) \<noteq> [] \<and>
             list_all (\<lambda>d. normalize_domain (domain d) = normalize_domain (domain primary))
               (filter (\<lambda>d. domain d \<noteq> []) (map snd es))
          then [''domain''] else []) @
         (if list_all (\<lambda>d. fst (fuzzy_name_match (name primary) (name d) DEFAULT_THRESHOLD))
               (map snd es)
          then [''name''] else [])" and
      conf: "match_confidence m = min (int (length (match_signals m)) * 30 + 10) 100"
      by blast
    have d: "list_all (\<lambda>d. normalize_domain (domain d) = normalize_domain (domain primary))
               (filter (\<lambda>d. domain d \<noteq> []) (map snd es)) =
             (\<forall>d \<in> set (dealer_records m). domain d \<noteq> [] \<longrightarrow>
                  normalize_domain (domain d) = normalize_domain (domain (primary_dealer m)))"
      unfolding list_all_iff p by auto
    have nm: "list_all (\<lambda>d. fst (fuzzy_name_match (name primary) (name d) DEFAULT_THRESHOLD))
               (map snd es) =
             (\<forall>d \<in> set (dealer_records m).
                 fst (fuzzy_name_match (name (primary_dealer m)) (name d) DEFAULT_THRESHOLD))"
      unfolding list_all_iff p by auto
    have s: "match_signals m =
           [''phone''] @
           (if normalize_domain (domain (primary_dealer m)) \<noteq> [] \<and>
               (\<forall>d \<in> set (dealer_records m). domain d \<noteq> [] \<longrightarrow>
                  normalize_domain (domain d) = normalize_domain (domain (primary_dealer m)))
            then [''domain''] else []) @
           (if \<forall>d \<in> set (dealer_records m).
                 fst (fuzzy_name_match (name (primary_dealer m)) (name d) DEFAULT_THRESHOLD)
            then [''name''] else [])"
      using sig unfolding d nm p(1) .
    have len: "length (match_signals m) = 1 \<or> length (match_signals m) = 2 \<or>
               length (match_signals m) = 3"
      by (subst s, subst s, subst s) (simp split: if_splits)
    show ?thesis using s conf len by (auto simp: mult.commute)
  next
    case dom
    from domain_match_SomeD[OF dom] have "match_signals m = [''domain'']" by blast
    with assms(3) show ?thesis by simp
  qed
qed

lemma find_snd: "dealers_by_oem (snd (find_multi_oem_contractors self n)) = dealers_by_oem self"
  using find_returns[of self n] by auto

text \<open>
  C7. Resolving returns a list (no error), and resolving again on the detector left by the
  first call, with the same \<open>min_oem_count\<close>, returns the same list in the same order.
\<close>

theorem resolve_twice_identical:
  "\<exists>ms. fst (find_multi_oem_contractors self n) = Inr ms \<and>
        fst (find_multi_oem_contractors (snd (find_multi_oem_contractors self n)) n) = Inr ms"
  using find_returns[of self n] find_fst_cong[OF find_snd, of self n n] by auto

text \<open>
  C9. A second \<open>add_dealers\<close> under the same OEM name replaces the earlier batch: the
  detector is the one that only the second call would have produced, the OEM name maps to
  the second batch, and resolution returns what it returns without the first call.
\<close>

theorem add_dealers_replaces_batch:
  "add_dealers ds2 oem_name (add_dealers ds1 oem_name self) = add_dealers ds2 oem_name self \<and>
   map_of (dealers_by_oem (add_dealers ds2 oem_name (add_dealers ds1 oem_name self))) oem_name
     = Some ds2 \<and>
   find_multi_oem_contractors (add_dealers ds2 oem_name (add_dealers ds1 oem_name self)) n =
     find_multi_oem_contractors (add_dealers ds2 oem_name self) n"
proof -
  have "add_dealers ds2 oem_name (add_dealers ds1 oem_name self) = add_dealers ds2 oem_name self"
    by (simp add: add_dealers_def dict_set_twice)
  then show ?thesis by (simp add: add_dealers_def map_of_dict_set)
qed

subsection \<open>Scenarios\<close>

lemma normalize_phone_scenario:
  "normalize_phone ''(555) 123-4567'' = ''5551234567''"
  "normalize_phone ''555-123-4567'' = ''5551234567''"
  "normalize_phone ''5551234567'' = ''5551234567''"
  by code_simp+

lemma normalize_name_scenario:
  "normalize_name ''ABC Electric'' = ''abc electric''"
  "normalize_name ''ABC Electric LLC'' = ''abc electric''"
  "normalize_name ''Abc Electric'' = ''abc electric''"
  by code_simp+

lemma sort_matches_single: "sort_matches [m] = [m]"
  by (simp add: sort_matches_def)

lemma three_oem_result:
  "fst (find_multi_oem_contractors three_oem_detector 2) = Inr [three_oem_group]"
  by code_simp

text \<open>
  C1 (counterexample). Three records with the phones and names of the scenario, none of
  them with a domain, registered under Generac, Tesla and Enphase: the one group returned
  has the signals \<open>phone\<close> and \<open>name\<close> only, so its confidence is 70, not 100.
\<close>

theorem three_oem_without_domain_confidence_70:
  "fst (find_multi_oem_contractors three_oem_detector 2) = Inr [three_oem_group] \<and>
   phone abc_generac = ''(555) 123-4567'' \<and> name abc_generac = ''ABC Electric'' \<and>
   phone abc_tesla = ''555-123-4567'' \<and> name abc_tesla = ''ABC Electric LLC'' \<and>
   phone abc_enphase = ''5551234567'' \<and> name abc_enphase = ''Abc Electric'' \<and>
   match_signals three_oem_group = [''phone'', ''name''] \<and>
   match_confidence three_oem_group = 70"
  using three_oem_result
  by (simp add: three_oem_group_def abc_generac_def abc_tesla_def abc_enphase_def)

text \<open>
  C1 (amended). For three records with the phones and names of the scenario, registered
  under Generac, Tesla and Enphase and all carrying the same domain string, resolving with
  \<open>min_oem_count = 2\<close> returns exactly one group; it holds the three records, its OEM set
  is {Generac, Tesla, Enphase} and its multi-OEM score is 100. When the shared domain has
  a non-empty normalisation the signals are \<open>phone\<close>, \<open>domain\<close>, \<open>name\<close> and the
  confidence is 100; otherwise (in particular without any domain) the signals are
  \<open>phone\<close>, \<open>name\<close> and the confidence is 70.
\<close>

theorem three_oem_phone_match:
  assumes ph: "phone d1 = ''(555) 123-4567''" "phone d2 = ''555-123-4567''"
      "phone d3 = ''5551234567''"
    and nm: "name d1 = ''ABC Electric''" "name d2 = ''ABC Electric LLC''"
      "name d3 = ''Abc Electric''"
    and dm: "domain d1 = shared" "domain d2 = shared" "domain d3 = shared"
  shows "\<exists>m. fst (find_multi_oem_contractors
                 (add_dealers [d3] ''Enphase''
                   (add_dealers [d2] ''Tesla''
                     (add_dealers [d1] ''Generac'' MultiOEMDetector_init))) 2) = Inr [m] \<and>
             oem_sources m = {''Generac'', ''Tesla'', ''Enphase''} \<and>
             dealer_records m = [d1, d2, d3] \<and>
             match_signals m =
               (if normalize_domain shared \<noteq> [] then [''phone'', ''domain'', ''name'']
                else [''phone'', ''name'']) \<and>
             match_confidence m = (if normalize_domain shared \<noteq> [] then 100 else 70) \<and>
             multi_oem_score m = 100"
proof -
  let ?s = "add_dealers [d3] ''Enphase''
              (add_dealers [d2] ''Tesla''
                (add_dealers [d1] ''Generac'' MultiOEMDetector_init))"
  let ?es = "[(''Generac'', d1), (''Tesla'', d2), (''Enphase'', d3)]"
  let ?P = "''5551234567''"
  let ?D = "normalize_domain shared"
  have dbo: "dealers_by_oem ?s = [(''Generac'', [d1]), (''Tesla'', [d2]), (''Enphase'', [d3])]"
    by (simp add: add_dealers_def MultiOEMDetector_init_def)
  have idx: "build_indexes (dealers_by_oem ?s) =
               ([(?P, ?es)], if ?D = [] then [] else [(?D, ?es)])"
    by (simp add: dbo build_indexes_def index_dealer_def ph dm normalize_phone_scenario Let_def)
  obtain p where p: "py_max dealer_key (map snd ?es) = Inr p"
    using py_max_nonempty[of "map snd ?es" dealer_key] by auto
  from py_max_mem[OF p] have pmem: "p = d1 \<or> p = d2 \<or> p = d3" by auto
  have grp: "group_by_oem ?es = [(''Generac'', [d1]), (''Tesla'', [d2]), (''Enphase'', [d3])]"
    by (simp add: group_by_oem_def)
  have names: "list_all (\<lambda>d. fst (fuzzy_name_match (name p) (name d) DEFAULT_THRESHOLD))
                 [d1, d2, d3]"
    using pmem by (auto simp: nm fuzzy_name_match_def normalize_name_scenario Let_def)
  have domp: "domain p = shared" using pmem dm by auto
  define m where "m =
    \<lparr>primary_dealer = p, oem_sources = {''Generac'', ''Tesla'', ''Enphase''},
     dealer_records = [d1, d2, d3],
     match_confidence = (if ?D \<noteq> [] then 100 else 70),
     match_signals = (if ?D \<noteq> [] then [''phone'', ''domain'', ''name'']
                      else [''phone'', ''name'']),
     multi_oem_score = 100\<rparr>"
  have pm: "phone_match 2 ?P ?es = Inr (Some (m, (?P, ?D)))"
    using names p
    by (simp add: phone_match_def grp Let_def domp dm calculate_multi_oem_score_def m_def)
  have dmm: "domain_match 2 {(?P, ?D)} ?D ?es = Inr None"
    by (simp add: domain_match_def ph normalize_phone_scenario)
  have "fst (find_multi_oem_contractors ?s 2) = Inr [m]"
    by (simp add: find_multi_oem_contractors_def idx pm dmm sort_matches_single Let_def)
  then show ?thesis by (intro exI[of _ m]) (simp add: m_def)
qed


lemma phone_loop_skips:
  "\<forall>(k, es) \<in> set idx. int (length es) < n \<Longrightarrow> phone_loop n idx acc = Inr acc"
proof (induction idx)
  case Nil
  then show ?case by simp
next
  case (Cons b idx)
  obtain k es where b: "b = (k, es)" by (cases b)
  obtain ms pr where acc: "acc = (ms, pr)" by (cases acc)
  from Cons show ?case by (simp add: b acc phone_match_def)
qed

text \<open>
  C4. Two records registered under two different OEM names, both with the domain
  \<open>abcelectric.com\<close> and with phone numbers whose normalisations differ: resolving with
  \<open>min_oem_count = 2\<close> returns exactly one group, holding both records, with confidence 60
  and the single signal \<open>domain\<close>.
\<close>

theorem domain_only_match:
  assumes dm: "domain d1 = ''abcelectric.com''" "domain d2 = ''abcelectric.com''"
    and ph: "normalize_phone (phone d1) \<noteq> normalize_phone (phone d2)"
    and oem: "oem1 \<noteq> oem2"
  shows "\<exists>m. fst (find_multi_oem_contractors
                 (add_dealers [d2] oem2 (add_dealers [d1] oem1 MultiOEMDetector_init)) 2)
               = Inr [m] \<and>
             dealer_records m = [d1, d2] \<and> oem_sources m = {oem1, oem2} \<and>
             match_confidence m = 60 \<and> match_signals m = [''domain'']"
proof -
  let ?s = "add_dealers [d2] oem2 (add_dealers [d1] oem1 MultiOEMDetector_init)"
  let ?es = "[(oem1, d1), (oem2, d2)]"
  let ?D = "''abcelectric.com''"
  have nd: "normalize_domain ''abcelectric.com'' = ''abcelectric.com''"
    by code_simp
  have dbo: "dealers_by_oem ?s = [(oem1, [d1]), (oem2, [d2])]"
    using oem by (simp add: add_dealers_def MultiOEMDetector_init_def)
  obtain pidx where idx: "build_indexes (dealers_by_oem ?s) = (pidx, [(?D, ?es)])"
    and small: "\<forall>(k, es) \<in> set pidx. int (length es) < 2"
    using ph
    by (simp add: dbo build_indexes_def index_dealer_def dm nd Let_def)
  obtain p where p: "py_max dealer_key (map snd ?es) = Inr p"
    using py_max_nonempty[of "map snd ?es" dealer_key] by auto
  have grp: "group_by_oem ?es = [(oem1, [d1]), (oem2, [d2])]"
    using oem by (simp add: group_by_oem_def)
  define m where "m =
    \<lparr>primary_dealer = p, oem_sources = {oem1, oem2}, dealer_records = [d1, d2],
     match_confidence = 60, match_signals = [''domain''], multi_oem_score = 60\<rparr>"
  have pl: "phone_loop 2 pidx ([], {}) = Inr ([], {})"
    using small by (rule phone_loop_skips)
  have dmm: "domain_match 2 {} ?D ?es = Inr (Some m)"
    using p oem
    by (simp add: domain_match_def grp Let_def calculate_multi_oem_score_def m_def)
  have "fst (find_multi_oem_contractors ?s 2) = Inr [m]"
    by (simp add: find_multi_oem_contractors_def idx pl dmm sort_matches_single Let_def)
  then show ?thesis by (intro exI[of _ m]) (simp add: m_def)
qed

theorem three_oem_phone_match_witness:
  "phone (abc_generac\<lparr>domain := ''abcelectric.com''\<rparr>) = ''(555) 123-4567'' \<and>
   name (abc_tesla\<lparr>domain := ''abcelectric.com''\<rparr>) = ''ABC Electric LLC'' \<and>
   (\<exists>m. fst (find_multi_oem_contractors
              (add_dealers [abc_enphase\<lparr>domain := ''abcelectric.com''\<rparr>] ''Enphase''
                (add_dealers [abc_tesla\<lparr>domain := ''abcelectric.com''\<rparr>] ''Tesla''
                  (add_dealers [abc_generac\<lparr>domain := ''abcelectric.com''\<rparr>] ''Generac''
                     MultiOEMDetector_init))) 2) = Inr [m] \<and>
        match_signals m = [''phone'', ''domain'', ''name''] \<and>
        match_confidence m = 100 \<and> multi_oem_score m = 100)"
proof -
  let ?d1 = "abc_generac\<lparr>domain := ''abcelectric.com''\<rparr>"
  let ?d2 = "abc_tesla\<lparr>domain := ''abcelectric.com''\<rparr>"
  let ?d3 = "abc_enphase\<lparr>domain := ''abcelectric.com''\<rparr>"
  have nd: "normalize_domain ''abcelectric.com'' = ''abcelectric.com''"
    by code_simp
  have ph: "phone ?d1 = ''(555) 123-4567''" "phone ?d2 = ''555-123-4567''"
    "phone ?d3 = ''5551234567''"
    by (simp_all add: abc_generac_def abc_tesla_def abc_enphase_def)
  have nm: "name ?d1 = ''ABC Electric''" "name ?d2 = ''ABC Electric LLC''"
    "name ?d3 = ''Abc Electric''"
    by (simp_all add: abc_generac_def abc_tesla_def abc_enphase_def)
  have dm: "domain ?d1 = ''abcelectric.com''" "domain ?d2 = ''abcelectric.com''"
    "domain ?d3 = ''abcelectric.com''"
    by simp_all
  from three_oem_phone_match[OF ph nm dm] obtain m where
    "fst (find_multi_oem_contractors
            (add_dealers [?d3] ''Enphase''
              (add_dealers [?d2] ''Tesla''
                (add_dealers [?d1] ''Generac'' MultiOEMDetector_init))) 2) = Inr [m]"
    "match_signals m =
       (if normalize_domain ''abcelectric.com'' \<noteq> [] then [''phone'', ''domain'', ''name'']
        else [''phone'', ''name''])"
    "match_confidence m = (if normalize_domain ''abcelectric.com'' \<noteq> [] then 100 else 70)"
    "multi_oem_score m = 100"
    by blast
  then have "\<exists>m. fst (find_multi_oem_contractors
            (add_dealers [?d3] ''Enphase''
              (add_dealers [?d2] ''Tesla''
                (add_dealers [?d1] ''Generac'' MultiOEMDetector_init))) 2) = Inr [m] \<and>
        match_signals m = [''phone'', ''domain'', ''name''] \<and>
        match_confidence m = 100 \<and> multi_oem_score m = 100"
    by (intro exI[of _ m]) (simp add: nd)
  with ph(1) nm(2) show ?thesis by blast
qed

theorem domain_only_match_witness:
  "normalize_phone (phone (abc_generac\<lparr>domain := ''abcelectric.com''\<rparr>)) \<noteq>
     normalize_phone (phone (abc_tesla\<lparr>domain := ''abcelectric.com'', phone := ''555-987-6543''\<rparr>)) \<and>
   (\<exists>m. fst (find_multi_oem_contractors
              (add_dealers [abc_tesla\<lparr>domain := ''abcelectric.com'', phone := ''555-987-6543''\<rparr>]
                 ''Tesla''
                (add_dealers [abc_generac\<lparr>domain := ''abcelectric.com''\<rparr>] ''Generac''
                   MultiOEMDetector_init)) 2) = Inr [m] \<and>
        match_confidence m = 60 \<and> match_signals m = [''domain''])"
proof -
  have ph: "normalize_phone (phone (abc_generac\<lparr>domain := ''abcelectric.com''\<rparr>)) \<noteq>
     normalize_phone (phone (abc_tesla\<lparr>domain := ''abcelectric.com'', phone := ''555-987-6543''\<rparr>))"
    by code_simp
  have oem: "''Generac'' \<noteq> ''Tesla''" by simp
  have d1: "domain (abc_generac\<lparr>domain := ''abcelectric.com''\<rparr>) = ''abcelectric.com''"
    and d2: "domain (abc_tesla\<lparr>domain := ''abcelectric.com'', phone := ''555-987-6543''\<rparr>)
               = ''abcelectric.com''"
    by simp_all
  from domain_only_match[OF d1 d2 ph oem] ph show ?thesis by blast
qed

theorem resolved_group_oem_count_and_score_witness:
  "fst (find_multi_oem_contractors three_oem_detector 2) = Inr [three_oem_group] \<and>
   three_oem_group \<in> set [three_oem_group] \<and>
   2 \<le> int (card (oem_sources three_oem_group)) \<and>
   card (oem_sources three_oem_group) = 3 \<and>
   multi_oem_score three_oem_group = 100"
proof -
  have c: "card (oem_sources three_oem_group) = 3"
    by (simp add: three_oem_group_def)
  show ?thesis
    using three_oem_result c
      resolved_group_oem_count_and_score[OF three_oem_result, of three_oem_group]
    by simp
qed

theorem phone_group_signals_and_confidence_witness:
  "fst (find_multi_oem_contractors three_oem_detector 2) = Inr [three_oem_group] \<and>
   three_oem_group \<in> set [three_oem_group] \<and>
   ''phone'' \<in> set (match_signals three_oem_group) \<and>
   length (match_signals three_oem_group) = 2 \<and>
   match_confidence three_oem_group = 70"
proof -
  have p: "''phone'' \<in> set (match_signals three_oem_group)"
    and l: "length (match_signals three_oem_group) = 2"
    by (simp_all add: three_oem_group_def)
  have mem: "three_oem_group \<in> set [three_oem_group]" by simp
  from phone_group_signals_and_confidence[OF three_oem_result mem p] l p three_oem_result
  show ?thesis by simp
qed

theorem resolve_twice_identical_witness:
  "fst (find_multi_oem_contractors
          (snd (find_multi_oem_contractors three_oem_detector 2)) 2) = Inr [three_oem_group]"
  using resolve_twice_identical[of three_oem_detector 2] three_oem_result
  by auto

theorem add_dealers_replaces_batch_witness:
  "map_of (dealers_by_oem
      (add_dealers [abc_tesla] ''Tesla'' (add_dealers [abc_generac] ''Tesla''
         MultiOEMDetector_init))) ''Tesla'' = Some [abc_tesla] \<and>
   find_multi_oem_contractors
      (add_dealers [abc_tesla] ''Tesla'' (add_dealers [abc_generac] ''Tesla''
         MultiOEMDetector_init)) 1 =
   find_multi_oem_contractors (add_dealers [abc_tesla] ''Tesla'' MultiOEMDetector_init) 1"
  using add_dealers_replaces_batch[of "[abc_tesla]" "''Tesla''" "[abc_generac]"
      MultiOEMDetector_init 1]
  by blast


subsection \<open>Configuration values\<close>

lemma group_by_oem_nonempty: "es \<noteq> [] \<Longrightarrow> group_by_oem es \<noteq> []"
  using group_by_oem_keys(1)[of es] by (cases es) auto

lemma phone_match_below_one:
  assumes "es \<noteq> []" and "n < 1"
  shows "phone_match n k es = phone_match 1 k es"
proof -
  have "0 < length es" "0 < length (group_by_oem es)"
    using assms(1) group_by_oem_nonempty[of es] by simp_all
  then have "\<not> int (length es) < n" "\<not> int (length (group_by_oem es)) < n"
    "\<not> int (length es) < 1" "\<not> int (length (group_by_oem es)) < 1"
    using assms(2) by simp_all
  then show ?thesis by (simp add: phone_match_def)
qed

lemma domain_match_below_one:
  assumes "es \<noteq> []" and "n < 1"
  shows "domain_match n pr k es = domain_match 1 pr k es"
proof -
  have "0 < length es" "0 < length (group_by_oem es)"
    using assms(1) group_by_oem_nonempty[of es] by simp_all
  then have "\<not> int (length es) < n" "\<not> int (length (group_by_oem es)) < n"
    "\<not> int (length es) < 1" "\<not> int (length (group_by_oem es)) < 1"
    using assms(2) by simp_all
  then show ?thesis using assms(1) by (cases es) (simp_all add: domain_match_def)
qed

lemma phone_loop_below_one:
  "buckets_nonempty idx \<Longrightarrow> n < 1 \<Longrightarrow> phone_loop n idx acc = phone_loop 1 idx acc"
proof (induction idx arbitrary: acc)
  case Nil
  then show ?case by simp
next
  case (Cons b idx)
  obtain k es where b: "b = (k, es)" by (cases b)
  obtain ms pr where acc: "acc = (ms, pr)" by (cases acc)
  from Cons.prems have es: "es \<noteq> []" and rest: "buckets_nonempty idx"
    by (auto simp: buckets_nonempty_def b)
  show ?case
    using Cons.IH[OF rest Cons.prems(2)] phone_match_below_one[OF es Cons.prems(2), of k]
    by (simp add: b acc split: sum.splits option.splits)
qed

lemma domain_loop_below_one:
  "buckets_nonempty idx \<Longrightarrow> n < 1 \<Longrightarrow> domain_loop n pr idx ms = domain_loop 1 pr idx ms"
proof (induction idx arbitrary: ms)
  case Nil
  then show ?case by simp
next
  case (Cons b idx)
  obtain k es where b: "b = (k, es)" by (cases b)
  from Cons.prems have es: "es \<noteq> []" and rest: "buckets_nonempty idx"
    by (auto simp: buckets_nonempty_def b)
  show ?case
    using Cons.IH[OF rest Cons.prems(2)] domain_match_below_one[OF es Cons.prems(2), of pr k]
    by (simp add: b split: sum.splits option.splits)
qed

lemma find_below_one:
  assumes "n < 1"
  shows "find_multi_oem_contractors self n = find_multi_oem_contractors self 1"
proof -
  obtain pi di where idx: "build_indexes (dealers_by_oem self) = (pi, di)"
    by (cases "build_indexes (dealers_by_oem self)")
  have ne: "buckets_nonempty pi" "buckets_nonempty di"
    using build_indexes_nonempty[of "dealers_by_oem self"] by (simp_all add: idx)
  show ?thesis
    by (simp add: find_multi_oem_contractors_def idx phone_loop_below_one[OF ne(1) assms]
        domain_loop_below_one[OF ne(2) assms] split: sum.splits prod.splits)
qed

lemma levenshtein_ratio_bounds: "0 \<le> levenshtein_ratio a b \<and> levenshtein_ratio a b \<le> 1"
proof -
  have "card (A \<inter> B) \<le> card (A \<union> B)" if "finite A" "finite B" for A B :: "string set"
    using that by (intro card_mono) auto
  then have le: "card (set xs \<inter> set ys) \<le> card (set xs \<union> set ys)" for xs ys :: "string list"
    by simp
  have q: "0 \<le> (of_nat i :: rat) / of_nat u \<and> (of_nat i :: rat) / of_nat u \<le> 1"
    if "i \<le> u" for i u :: nat
    using that by (cases "u = 0") (simp_all add: divide_le_eq_1)
  show ?thesis
    using q[OF le] by (simp add: levenshtein_ratio_def Let_def)
qed

lemma fuzzy_threshold_nonpositive:
  "t \<le> 0 \<Longrightarrow> fst (fuzzy_name_match a b t) = (a \<noteq> [] \<and> b \<noteq> [])"
  using levenshtein_ratio_bounds[of "normalize_name a" "normalize_name b"]
  by (auto simp: fuzzy_name_match_def Let_def)

lemma fuzzy_threshold_above_one:
  "1 < t \<Longrightarrow> fst (fuzzy_name_match a b t) =
     (a \<noteq> [] \<and> b \<noteq> [] \<and>
      (normalize_name a = normalize_name b \<or> contains (normalize_name a) (normalize_name b) \<or>
       contains (normalize_name b) (normalize_name a)))"
  using levenshtein_ratio_bounds[of "normalize_name a" "normalize_name b"]
  by (auto simp: fuzzy_name_match_def Let_def)

text \<open>
  C6 (counterexample). With \<open>min_oem_count = 0\<close> the resolver returns a list, and the
  fuzzy name match returns a verdict for the thresholds 0 and 2: nothing is raised.
\<close>

theorem invalid_configuration_accepted:
  "fst (find_multi_oem_contractors three_oem_detector 0) = Inr [three_oem_group] \<and>
   fuzzy_name_match ''ABC Electric'' ''XYZ Plumbing'' 0 = (True, 0) \<and>
   fuzzy_name_match ''ABC Electric'' ''XYZ Plumbing'' 2 = (False, 0)"
  by code_simp

text \<open>
  C6 (amended). Neither call checks its configuration, and neither raises. Resolving
  always returns a list, and with \<open>min_oem_count < 1\<close> it returns what it returns with
  \<open>min_oem_count = 1\<close>. The fuzzy name match with a threshold of at most 0 matches every
  two non-empty names; with a threshold above 1 it matches two non-empty names exactly
  when their normalised forms are equal or one contains the other.
\<close>

theorem configuration_not_checked:
  "(\<exists>ms. fst (find_multi_oem_contractors self n) = Inr ms) \<and>
   (n < 1 \<longrightarrow> find_multi_oem_contractors self n = find_multi_oem_contractors self 1) \<and>
   (t \<le> 0 \<longrightarrow> fst (fuzzy_name_match a b t) = (a \<noteq> [] \<and> b \<noteq> [])) \<and>
   (1 < t \<longrightarrow> fst (fuzzy_name_match a b t) =
     (a \<noteq> [] \<and> b \<noteq> [] \<and>
      (normalize_name a = normalize_name b \<or> contains (normalize_name a) (normalize_name b) \<or>
       contains (normalize_name b) (normalize_name a))))"
  using find_returns[of self n] find_below_one[of n self]
    fuzzy_threshold_nonpositive[of t a b] fuzzy_threshold_above_one[of t a b]
  by auto

section \<open>Properties of the geographic score\<close>

lemma wealthy_zips_init: "wealthy_zips CoperniqLeadScorer_init = WEALTHY_ZIPS"
  by (simp add: CoperniqLeadScorer_init_def)

lemma wealthy_states:
  "(map_of WEALTHY_ZIPS st = None) =
     (st \<notin> {''CA'', ''TX'', ''PA'', ''MA'', ''NJ'', ''FL''})"
  by (simp add: WEALTHY_ZIPS_def)

text \<open>
  C8 (counterexample). A contractor whose state has no entry in the table of wealthy ZIP
  codes (here New York) gets the geographic score 0.
\<close>

theorem geographic_score_zero_outside_table:
  "fst (score_geographic_value CoperniqLeadScorer_init
          (three_oem_group\<lparr>primary_dealer :=
             abc_generac\<lparr>state := ''NY'', zip_code := ''10001''\<rparr>\<rparr>)) = 0"
  by code_simp

text \<open>
  C8 (amended). For a contractor whose state has an entry in the table, the geographic score
  is 10 when its ZIP is among the first ten entries of the state's list, 7 when it is in the
  list but not among the first ten, and 3 when it is not in the list. For a contractor
  whose state has no entry the score is 0; the score is zero exactly for those states, the
  table having entries for CA, TX, PA, MA, NJ and FL.
\<close>

theorem geographic_score_bands:
  "fst (score_geographic_value CoperniqLeadScorer_init c) =
     (case map_of WEALTHY_ZIPS (state (primary_dealer c)) of
        None \<Rightarrow> 0
      | Some zs \<Rightarrow>
          if zip_code (primary_dealer c) \<in> set (take 10 zs) then 10
          else if zip_code (primary_dealer c) \<in> set zs then 7
          else 3) \<and>
   (fst (score_geographic_value CoperniqLeadScorer_init c) = 0) =
     (state (primary_dealer c) \<notin> {''CA'', ''TX'', ''PA'', ''MA'', ''NJ'', ''FL''})"
proof -
  have 1: "fst (score_geographic_value CoperniqLeadScorer_init c) =
     (case map_of WEALTHY_ZIPS (state (primary_dealer c)) of
        None \<Rightarrow> 0
      | Some zs \<Rightarrow>
          if zip_code (primary_dealer c) \<in> set (take 10 zs) then 10
          else if zip_code (primary_dealer c) \<in> set zs then 7
          else 3)"
    by (simp add: score_geographic_value_def wealthy_zips_init Let_def split: option.splits)
  have 2: "(fst (score_geographic_value CoperniqLeadScorer_init c) = 0) =
             (map_of WEALTHY_ZIPS (state (primary_dealer c)) = None)"
    unfolding 1 by (simp split: option.splits)
  show ?thesis using 1 2 wealthy_states by simp
qed

theorem configuration_not_checked_witness:
  "(0::int) < 1 \<and> (0::rat) \<le> 0 \<and> (1::rat) < 2 \<and>
   fst (find_multi_oem_contractors three_oem_detector 0) = Inr [three_oem_group] \<and>
   find_multi_oem_contractors three_oem_detector 0 = find_multi_oem_contractors three_oem_detector 1 \<and>
   fst (fuzzy_name_match ''ABC Electric'' ''XYZ Plumbing'' 0) \<and>
   \<not> fst (fuzzy_name_match ''ABC Electric'' ''XYZ Plumbing'' 2)"
proof -
  have r: "fst (find_multi_oem_contractors three_oem_detector 0) = Inr [three_oem_group]"
    by code_simp
  have n: "normalize_name ''ABC Electric'' = ''abc electric''"
    "normalize_name ''XYZ Plumbing'' = ''xyz plumbing''"
    by code_simp+
  show ?thesis
    using r configuration_not_checked[of three_oem_detector 0 0 "''ABC Electric''" "''XYZ Plumbing''"]
      configuration_not_checked[of three_oem_detector 0 2 "''ABC Electric''" "''XYZ Plumbing''"]
    by (simp add: n)
qed

theorem geographic_score_bands_witness:
  "fst (score_geographic_value CoperniqLeadScorer_init three_oem_group) = 10 \<and>
   fst (score_geographic_value CoperniqLeadScorer_init
          (three_oem_group\<lparr>primary_dealer := abc_generac\<lparr>zip_code := ''92625''\<rparr>\<rparr>)) = 7 \<and>
   fst (score_geographic_value CoperniqLeadScorer_init
          (three_oem_group\<lparr>primary_dealer := abc_generac\<lparr>zip_code := ''90001''\<rparr>\<rparr>)) = 3"
  using geographic_score_bands[of three_oem_group]
    geographic_score_bands[of "three_oem_group\<lparr>primary_dealer := abc_generac\<lparr>zip_code := ''92625''\<rparr>\<rparr>"]
    geographic_score_bands[of "three_oem_group\<lparr>primary_dealer := abc_generac\<lparr>zip_code := ''90001''\<rparr>\<rparr>"]
  by (simp add: three_oem_group_def abc_generac_def WEALTHY_ZIPS_def)


end
